theory Spec2Isabelle
  imports Complex_Main
begin

section \<open>Errors and tensors\<close>

text \<open>
  Every exception the modelled Python code can raise is a value of \<open>error\<close>; a function
  that may raise returns \<open>error + 'a\<close>, with \<open>Inl\<close> for the exception. A bare
  \<^verbatim>\<open>assert cond\<close> raises an AssertionError that carries no message, so the
  constructor has no argument.
\<close>

datatype error =
    AssertionError
  | IndexError
  | ValueError
  | RuntimeError
  | StopIteration
  | NotImplementedError

text \<open>
  A tensor is its shape and its elements in row-major (contiguous) order. Strides are not
  modelled, so \<^verbatim>\<open>contiguous()\<close> is the identity and \<^verbatim>\<open>view\<close> and
  \<^verbatim>\<open>reshape\<close> coincide. Elements are taken from a commutative semiring (exact
  arithmetic) in place of floating-point numbers.
\<close>

datatype 'a tensor = Tensor (shape: "nat list") (data: "'a list")

definition wf_tensor :: "'a tensor \<Rightarrow> bool" where
  "wf_tensor t = (length (data t) = prod_list (shape t))"

definition numel :: "'a tensor \<Rightarrow> nat" where
  "numel t = prod_list (shape t)"

text \<open>All index tuples of a shape, in row-major order, and the offset of an index tuple.\<close>

definition indices :: "nat list \<Rightarrow> nat list list" where
  "indices ds = product_lists (map (\<lambda>d. [0..<d]) ds)"

fun flat_index :: "nat list \<Rightarrow> nat list \<Rightarrow> nat" where
  "flat_index (d # ds) (i # js) = i * prod_list ds + flat_index ds js"
| "flat_index _ _ = 0"

text \<open>\<^verbatim>\<open>t.view(new_shape)\<close> and \<^verbatim>\<open>t.reshape(new_shape)\<close>: the element count must match.\<close>

definition view :: "'a tensor \<Rightarrow> nat list \<Rightarrow> error + 'a tensor" where
  "view t new_shape =
     (if prod_list new_shape = numel t then Inr (Tensor new_shape (data t))
      else Inl RuntimeError)"

definition reshape :: "'a tensor \<Rightarrow> nat list \<Rightarrow> error + 'a tensor" where
  "reshape t new_shape = view t new_shape"

text \<open>\<^verbatim>\<open>t.view(-1)\<close>: the one-dimensional tensor of all elements.\<close>

definition view_flat :: "'a tensor \<Rightarrow> error + 'a tensor" where
  "view_flat t = Inr (Tensor [numel t] (data t))"

section \<open>Einstein summation\<close>

text \<open>
  Modelled from the spec: \<^verbatim>\<open>einsum\<close> is the wrapper of \<^verbatim>\<open>backpack.utils\<close>
  around the tensor library's Einstein summation; it is not among the sources. The model
  covers equations with an explicit output (\<^verbatim>\<open>"ab,cd->ac"\<close>) over letters, which is what
  every call site uses: the entry of the result at an assignment of the output letters is
  the sum, over all assignments of the remaining letters, of the product of the operands'
  entries. An equation outside this fragment, a wrong number of operands, an operand whose
  rank differs from its subscript, or a letter bound to two different sizes gives
  \<open>RuntimeError\<close>.
\<close>

fun split_arrow :: "string \<Rightarrow> (string \<times> string) option" where
  "split_arrow (x # y # xs) =
     (if x = CHR ''-'' \<and> y = CHR ''>'' then Some ([], xs)
      else (case split_arrow (y # xs) of
              None \<Rightarrow> None
            | Some (l, r) \<Rightarrow> Some (x # l, r)))"
| "split_arrow _ = None"

fun split_on :: "char \<Rightarrow> string \<Rightarrow> string list" where
  "split_on c [] = [[]]"
| "split_on c (x # xs) =
     (if x = c then [] # split_on c xs
      else (case split_on c xs of
              [] \<Rightarrow> [[x]]
            | w # ws \<Rightarrow> (x # w) # ws))"

definition parse_equation :: "string \<Rightarrow> (string list \<times> string) option" where
  "parse_equation equation =
     (case split_arrow equation of
        None \<Rightarrow> None
      | Some (lhs, rhs) \<Rightarrow> Some (split_on CHR '','' lhs, rhs))"

definition is_letter :: "char \<Rightarrow> bool" where
  "is_letter c =
     (let n = (of_char c :: nat) in (65 \<le> n \<and> n \<le> 90) \<or> (97 \<le> n \<and> n \<le> 122))"

fun lookup :: "(char \<times> nat) list \<Rightarrow> char \<Rightarrow> nat" where
  "lookup [] l = 0"
| "lookup ((k, n) # env) l = (if k = l then n else lookup env l)"

definition letter_sizes :: "string list \<Rightarrow> 'a tensor list \<Rightarrow> (char \<times> nat) list" where
  "letter_sizes ins operands =
     concat (map (\<lambda>(sub, t). zip sub (shape t)) (zip ins operands))"

definition consistent :: "(char \<times> nat) list \<Rightarrow> bool" where
  "consistent sizes = list_all (\<lambda>(l, n). lookup sizes l = n) sizes"

definition einsum_ok :: "string list \<Rightarrow> string \<Rightarrow> 'a tensor list \<Rightarrow> bool" where
  "einsum_ok ins out operands =
     (list_all is_letter (concat ins @ out) \<and>
      list_all2 (\<lambda>sub t. length sub = length (shape t)) ins operands \<and>
      consistent (letter_sizes ins operands) \<and>
      distinct out \<and>
      list_all (\<lambda>l. l \<in> set (concat ins)) out)"

definition einsum_entry ::
  "string list \<Rightarrow> 'a::comm_semiring_1 tensor list \<Rightarrow> (char \<times> nat) list \<Rightarrow> 'a" where
  "einsum_entry ins operands env =
     prod_list (map (\<lambda>(sub, t). data t ! flat_index (shape t) (map (lookup env) sub))
                    (zip ins operands))"

definition summed_letters :: "string list \<Rightarrow> string \<Rightarrow> string" where
  "summed_letters ins out = remdups (filter (\<lambda>l. l \<notin> set out) (concat ins))"

definition einsum :: "string \<Rightarrow> 'a::comm_semiring_1 tensor list \<Rightarrow> error + 'a tensor" where
  "einsum equation operands =
     (case parse_equation equation of
        None \<Rightarrow> Inl RuntimeError
      | Some (ins, out) \<Rightarrow>
          if einsum_ok ins out operands then
            (let sizes = letter_sizes ins operands;
                 summed = summed_letters ins out
             in Inr (Tensor (map (lookup sizes) out)
                  (map (\<lambda>oi. sum_list (map (\<lambda>si. einsum_entry ins operands
                                                     (zip (out @ summed) (oi @ si)))
                                            (indices (map (lookup sizes) summed))))
                       (indices (map (lookup sizes) out)))))
          else Inl RuntimeError)"

section \<open>Kronecker-factor utilities (extensions/secondorder/utils.py)\<close>

definition is_tensor_of_order :: "nat \<Rightarrow> 'a tensor \<Rightarrow> bool" where
  "is_tensor_of_order order t = (length (shape t) = order)"

definition is_matrix :: "'a tensor \<Rightarrow> bool" where
  "is_matrix t = (let matrix_order = 2 in is_tensor_of_order matrix_order t)"

definition all_tensors_of_order :: "nat \<Rightarrow> 'a tensor list \<Rightarrow> bool" where
  "all_tensors_of_order order tensors = list_all (is_tensor_of_order order) tensors"

definition matrix_from_two_kron_facs ::
  "'a::comm_semiring_1 tensor \<Rightarrow> 'a tensor \<Rightarrow> error + 'a tensor" where
  "matrix_from_two_kron_facs A B =
     (if \<not> is_matrix A then Inl AssertionError
      else if \<not> is_matrix B then Inl AssertionError
      else
        (let mat_shape = [shape A ! 0 * shape B ! 0, shape A ! 1 * shape B ! 1]
         in case einsum ''ij,kl->ikjl'' [A, B] of
              Inl e \<Rightarrow> Inl e
            | Inr m \<Rightarrow> view m mat_shape))"

text \<open>
  The loop of \<^verbatim>\<open>matrix_from_kron_facs\<close>, with the accumulator \<^verbatim>\<open>mat\<close> that
  starts as \<^verbatim>\<open>None\<close>; the function returns the accumulator, so Python's
  \<^verbatim>\<open>None\<close> is a possible result.
\<close>

fun matrix_from_kron_facs_loop ::
  "'a::comm_semiring_1 tensor option \<Rightarrow> 'a tensor list \<Rightarrow> error + 'a tensor option" where
  "matrix_from_kron_facs_loop mat [] = Inr mat"
| "matrix_from_kron_facs_loop None (factor # rest) =
     (if is_matrix factor then matrix_from_kron_facs_loop (Some factor) rest
      else Inl AssertionError)"
| "matrix_from_kron_facs_loop (Some m) (factor # rest) =
     (case matrix_from_two_kron_facs m factor of
        Inl e \<Rightarrow> Inl e
      | Inr m' \<Rightarrow> matrix_from_kron_facs_loop (Some m') rest)"

definition matrix_from_kron_facs ::
  "'a::comm_semiring_1 tensor list \<Rightarrow> error + 'a tensor option" where
  "matrix_from_kron_facs factors = matrix_from_kron_facs_loop None factors"

text \<open>
  The generator \<^verbatim>\<open>get_letters\<close> is the list of letters it has yet to yield;
  \<^verbatim>\<open>next\<close> takes the first one or raises \<open>StopIteration\<close>.
\<close>

definition get_letters :: "nat \<Rightarrow> string" where
  "get_letters max_letters = map (\<lambda>i. char_of (of_char CHR ''a'' + i)) [0..<max_letters]"

fun next_letter :: "string \<Rightarrow> error + (char \<times> string)" where
  "next_letter [] = Inl StopIteration"
| "next_letter (c # cs) = Inr (c, cs)"

fun vp_einsum_equation_loop ::
  "nat \<Rightarrow> string \<Rightarrow> string \<times> string \<times> string \<Rightarrow> error + (string \<times> string \<times> string)" where
  "vp_einsum_equation_loop 0 letters acc = Inr acc"
| "vp_einsum_equation_loop (Suc n) letters (in_str, v_str, out_str) =
     (case next_letter letters of
        Inl e \<Rightarrow> Inl e
      | Inr (row_idx, letters1) \<Rightarrow>
          (case next_letter letters1 of
             Inl e \<Rightarrow> Inl e
           | Inr (col_idx, letters2) \<Rightarrow>
               vp_einsum_equation_loop n letters2
                 (in_str @ '','' @ [row_idx] @ [col_idx], v_str @ [col_idx],
                  out_str @ [row_idx])))"

definition vp_einsum_equation :: "nat \<Rightarrow> error + string" where
  "vp_einsum_equation num_factors =
     (case vp_einsum_equation_loop num_factors (get_letters 26) ('''', '''', '''') of
        Inl e \<Rightarrow> Inl e
      | Inr (in_str, v_str, out_str) \<Rightarrow> Inr (v_str @ in_str @ ''->'' @ out_str))"

text \<open>\<^verbatim>\<open>zip(*shapes)\<close>: the columns of a list of lists, cut at the shortest one.\<close>

definition zip_star :: "'a list list \<Rightarrow> 'a list list" where
  "zip_star xss =
     (case xss of
        [] \<Rightarrow> []
      | xs # rest \<Rightarrow>
          map (\<lambda>i. map (\<lambda>ys. ys ! i) xss) [0..<foldr min (map length rest) (length xs)])"

text \<open>The closure \<^verbatim>\<open>vp\<close> that \<^verbatim>\<open>vp_from_kron_facs\<close> returns.\<close>

definition vp ::
  "string \<Rightarrow> nat list \<Rightarrow> 'a::comm_semiring_1 tensor list \<Rightarrow> 'a tensor \<Rightarrow> error + 'a tensor" where
  "vp equation col_dims factors v =
     (if length (shape v) \<noteq> 1 then Inl AssertionError
      else case view v col_dims of
             Inl e \<Rightarrow> Inl e
           | Inr v_reshaped \<Rightarrow>
               (case einsum equation (v_reshaped # factors) of
                  Inl e \<Rightarrow> Inl e
                | Inr r \<Rightarrow> view_flat r))"

definition vp_from_kron_facs ::
  "'a::comm_semiring_1 tensor list \<Rightarrow> error + ('a tensor \<Rightarrow> error + 'a tensor)" where
  "vp_from_kron_facs factors =
     (if \<not> all_tensors_of_order 2 factors then Inl AssertionError
      else
        (let shapes = map shape factors
         in case zip_star shapes of
              [_, col_dims] \<Rightarrow>
                (let num_factors = length shapes
                 in case vp_einsum_equation num_factors of
                      Inl e \<Rightarrow> Inl e
                    | Inr equation \<Rightarrow> Inr (vp equation col_dims factors))
            | _ \<Rightarrow> Inl ValueError))"

definition multiply_vec_with_kron_facs ::
  "'a::comm_semiring_1 tensor list \<Rightarrow> 'a tensor \<Rightarrow> error + 'a tensor" where
  "multiply_vec_with_kron_facs factors v =
     (case vp_from_kron_facs factors of
        Inl e \<Rightarrow> Inl e
      | Inr f \<Rightarrow> f v)"

text \<open>
  Auxiliary: the letters of the generator taken two at a time, as the loop of
  \<^verbatim>\<open>vp_einsum_equation\<close> consumes them (row letter, column letter).
\<close>

fun pair_up :: "'a list \<Rightarrow> ('a \<times> 'a) list" where
  "pair_up (x # y # xs) = (x, y) # pair_up xs"
| "pair_up _ = []"

definition letter_pairs :: "nat \<Rightarrow> (char \<times> char) list" where
  "letter_pairs n = pair_up (take (2 * n) (get_letters 26))"

text \<open>
  The dense matrix-vector product \<^verbatim>\<open>M @ v\<close> that the factored product is compared
  with. It is not part of the sources; it is the textbook definition on a row-major matrix
  with \<open>rows\<close> rows and \<open>cols\<close> columns.
\<close>

definition matvec :: "'a::comm_semiring_1 tensor \<Rightarrow> 'a tensor \<Rightarrow> 'a tensor" where
  "matvec M v =
     (let rows = shape M ! 0; cols = shape M ! 1
      in Tensor [rows]
           (map (\<lambda>i. sum_list (map (\<lambda>j. data M ! (i * cols + j) * data v ! j) [0..<cols]))
                [0..<rows]))"

section \<open>Shape conventions (core/derivatives/utils.py)\<close>

text \<open>
  The layer record, with the attributes the modelled functions read. The calls to
  \<^verbatim>\<open>print\<close> write to the standard output only and are left out.
\<close>

record 'a module =
  input0 :: "'a tensor"
  input0_shape :: "nat list"
  output_shape :: "nat list"
  weight :: "'a tensor"

text \<open>\<^verbatim>\<open>shape[i]\<close> and \<^verbatim>\<open>shape[-1]\<close> raise \<open>IndexError\<close> out of range.\<close>

definition shape_at :: "nat list \<Rightarrow> nat \<Rightarrow> error + nat" where
  "shape_at s i = (if i < length s then Inr (s ! i) else Inl IndexError)"

definition shape_last :: "nat list \<Rightarrow> error + nat" where
  "shape_last s = (if s = [] then Inl IndexError else Inr (last s))"

definition new_output_convention ::
  "'a::comm_semiring_1 tensor \<Rightarrow> 'a module \<Rightarrow> error + 'a tensor" where
  "new_output_convention old_mat m =
     (case shape_at (output_shape m) 0 of
        Inl e \<Rightarrow> Inl e
      | Inr N \<Rightarrow>
     (case shape_last (shape old_mat) of
        Inl e \<Rightarrow> Inl e
      | Inr V \<Rightarrow>
     (let out_features_shape = tl (output_shape m);
          out_features = prod_list out_features_shape
      in if shape old_mat \<noteq> [N, out_features, V] then Inl AssertionError
         else
           (case einsum ''ndv->vnd'' [old_mat] of
              Inl e \<Rightarrow> Inl e
            | Inr new_mat \<Rightarrow>
                (let new_shape = [V, N] @ out_features_shape
                 in reshape new_mat new_shape)))))"

definition old_weight_convention ::
  "'a::comm_semiring_1 tensor \<Rightarrow> 'a module \<Rightarrow> bool \<Rightarrow> error + 'a tensor" where
  "old_weight_convention new_mat m sum_batch =
     (case shape_at (shape new_mat) 0 of
        Inl e \<Rightarrow> Inl e
      | Inr V \<Rightarrow>
     (case shape_at (shape new_mat) 1 of
        Inl e \<Rightarrow> Inl e
      | Inr N \<Rightarrow>
     (let weight_shape = shape (weight m)
      in if (if sum_batch then shape new_mat \<noteq> [V] @ weight_shape
             else shape new_mat \<noteq> [V, N] @ weight_shape)
         then Inl AssertionError
         else
           (let weight_numel = numel (weight m);
                out_shape = (if sum_batch then [V, weight_numel] else [V, N, weight_numel])
            in case reshape new_mat out_shape of
                 Inl e \<Rightarrow> Inl e
               | Inr old_mat \<Rightarrow>
                   (let equation = (if sum_batch then ''vi->iv'' else ''vni->niv'')
                    in einsum equation [old_mat])))))"

definition new_input_convention ::
  "'a::comm_semiring_1 tensor \<Rightarrow> 'a module \<Rightarrow> error + 'a tensor" where
  "new_input_convention old_mat m =
     (case shape_at (input0_shape m) 0 of
        Inl e \<Rightarrow> Inl e
      | Inr N \<Rightarrow>
     (case shape_last (shape old_mat) of
        Inl e \<Rightarrow> Inl e
      | Inr V \<Rightarrow>
     (let in_features_shape = tl (input0_shape m);
          in_features = prod_list in_features_shape
      in if shape old_mat \<noteq> [N, in_features, V] then Inl AssertionError
         else
           (case einsum ''ndv->vnd'' [old_mat] of
              Inl e \<Rightarrow> Inl e
            | Inr new_mat \<Rightarrow>
                (let new_shape = [V, N] @ in_features_shape
                 in reshape new_mat new_shape)))))"

definition old_input_convention ::
  "'a::comm_semiring_1 tensor \<Rightarrow> 'a module \<Rightarrow> error + 'a tensor" where
  "old_input_convention new_mat m =
     (case shape_at (input0_shape m) 0 of
        Inl e \<Rightarrow> Inl e
      | Inr N \<Rightarrow>
     (case shape_at (shape new_mat) 0 of
        Inl e \<Rightarrow> Inl e
      | Inr V \<Rightarrow>
     (let in_features_shape = tl (input0_shape m);
          in_features = prod_list in_features_shape
      in if shape new_mat \<noteq> [V, N] @ in_features_shape then Inl AssertionError
         else
           (case reshape new_mat [V, N, in_features] of
              Inl e \<Rightarrow> Inl e
            | Inr old_mat \<Rightarrow> einsum ''vnc->ncv'' [old_mat]))))"

definition old_output_convention ::
  "'a::comm_semiring_1 tensor \<Rightarrow> 'a module \<Rightarrow> error + 'a tensor" where
  "old_output_convention new_mat m =
     (case shape_at (output_shape m) 0 of
        Inl e \<Rightarrow> Inl e
      | Inr N \<Rightarrow>
     (case shape_at (shape new_mat) 0 of
        Inl e \<Rightarrow> Inl e
      | Inr V \<Rightarrow>
     (let out_features_shape = tl (output_shape m);
          out_features = prod_list out_features_shape
      in if shape new_mat \<noteq> [V, N] @ out_features_shape then Inl AssertionError
         else
           (case reshape new_mat [V, N, out_features] of
              Inl e \<Rightarrow> Inl e
            | Inr old_mat \<Rightarrow> einsum ''vnc->ncv'' [old_mat]))))"

text \<open>
  \<^verbatim>\<open>unsqueeze(-1)\<close> appends an axis of size 1; \<^verbatim>\<open>squeeze(-1)\<close> removes the last
  axis when its size is 1 and leaves the tensor as it is otherwise.
\<close>

definition add_V_dim :: "'a tensor \<Rightarrow> 'a tensor" where
  "add_V_dim old_mat = Tensor (shape old_mat @ [1]) (data old_mat)"

definition remove_V_dim :: "'a tensor \<Rightarrow> 'a tensor" where
  "remove_V_dim old_mat =
     (if shape old_mat \<noteq> [] \<and> last (shape old_mat) = 1
      then Tensor (butlast (shape old_mat)) (data old_mat)
      else old_mat)"

text \<open>
  The three decorators. The wrapped handler \<open>jmp\<close> receives \<^verbatim>\<open>self\<close>, the layer, the
  two gradient arguments, the converted matrix and the keyword arguments, and may raise.
  The keyword arguments are a map from names to values; \<^verbatim>\<open>sum_batch\<close> is the only one
  a decorator reads.
\<close>

type_synonym kwargs = "string \<rightharpoonup> bool"

type_synonym ('s, 'g, 'a) handler =
  "'s \<Rightarrow> 'a module \<Rightarrow> 'g \<Rightarrow> 'g \<Rightarrow> 'a tensor \<Rightarrow> kwargs \<Rightarrow> error + 'a tensor"

definition jac_t_new_shape_convention ::
  "('s, 'g, 'a::comm_semiring_1) handler \<Rightarrow> ('s, 'g, 'a) handler" where
  "jac_t_new_shape_convention jmp self m g_inp g_out mat kw =
     (let is_vec = (length (shape mat) = 2);
          mat_used = (if \<not> is_vec then mat else add_V_dim mat)
      in case new_output_convention mat_used m of
           Inl e \<Rightarrow> Inl e
         | Inr mat_used \<Rightarrow>
             (case jmp self m g_inp g_out mat_used kw of
                Inl e \<Rightarrow> Inl e
              | Inr result \<Rightarrow>
                  (case old_input_convention result m of
                     Inl e \<Rightarrow> Inl e
                   | Inr result \<Rightarrow>
                       Inr (if \<not> is_vec then result else remove_V_dim result))))"

definition weight_jac_t_new_shape_convention ::
  "('s, 'g, 'a::comm_semiring_1) handler \<Rightarrow> ('s, 'g, 'a) handler" where
  "weight_jac_t_new_shape_convention jmp self m g_inp g_out mat kw =
     (let is_vec = (length (shape mat) = 2);
          mat_used = (if \<not> is_vec then mat else add_V_dim mat)
      in case new_output_convention mat_used m of
           Inl e \<Rightarrow> Inl e
         | Inr mat_used \<Rightarrow>
             (case jmp self m g_inp g_out mat_used kw of
                Inl e \<Rightarrow> Inl e
              | Inr result \<Rightarrow>
                  (let sum_batch = (case kw ''sum_batch'' of Some b \<Rightarrow> b | None \<Rightarrow> True)
                   in case old_weight_convention result m sum_batch of
                        Inl e \<Rightarrow> Inl e
                      | Inr result \<Rightarrow>
                          Inr (if \<not> is_vec then result else remove_V_dim result))))"

definition jac_new_shape_convention ::
  "('s, 'g, 'a::comm_semiring_1) handler \<Rightarrow> ('s, 'g, 'a) handler" where
  "jac_new_shape_convention jmp self m g_inp g_out mat kw =
     (let is_vec = (length (shape mat) = 2);
          mat_used = (if \<not> is_vec then mat else add_V_dim mat)
      in case new_input_convention mat_used m of
           Inl e \<Rightarrow> Inl e
         | Inr mat_used \<Rightarrow>
             (case jmp self m g_inp g_out mat_used kw of
                Inl e \<Rightarrow> Inl e
              | Inr result \<Rightarrow>
                  (case old_output_convention result m of
                     Inl e \<Rightarrow> Inl e
                   | Inr result \<Rightarrow>
                       Inr (if \<not> is_vec then result else remove_V_dim result))))"

section \<open>The convolution handler (secondorder/hbp/conv2d.py)\<close>

text \<open>
  Modelled from the spec: the strategy selectors of \<^verbatim>\<open>strategies.py\<close>, which is not
  among the sources. Each selector is a closed set of two tags: the backpropagation
  strategy is the square-root or the batch-average one, and the expectation approximation
  either averages the parameter Jacobian or does not.
\<close>

datatype BackpropStrategy = Sqrt | BatchAverage

datatype ExpectationApproximation = AverageParamJac | NoAverageParamJac

definition is_batch_average :: "BackpropStrategy \<Rightarrow> bool" where
  "is_batch_average strategy = (strategy = BatchAverage)"

definition is_sqrt :: "BackpropStrategy \<Rightarrow> bool" where
  "is_sqrt strategy = (strategy = Sqrt)"

definition should_average_param_jac :: "ExpectationApproximation \<Rightarrow> bool" where
  "should_average_param_jac strategy = (strategy = AverageParamJac)"

text \<open>
  The handler object: the two strategies its extension selects and the backpropagated
  matrix of its context. The helpers of \<^verbatim>\<open>utils/conv.py\<close> are not among the sources
  either; they are parameters that may raise.
\<close>

record 'a HBPConv2d =
  bp_strategy_from_extension :: BackpropStrategy
  ea_strategy_from_extension :: ExpectationApproximation
  mat_from_ctx :: "'a tensor"

record 'a convUtils =
  unfold_func :: "'a module \<Rightarrow> 'a tensor \<Rightarrow> error + 'a tensor"
  separate_channels_and_pixels :: "'a module \<Rightarrow> 'a tensor \<Rightarrow> error + 'a tensor"

text \<open>Division of every entry by the batch size.\<close>

definition tensor_div :: "'a::field tensor \<Rightarrow> nat \<Rightarrow> 'a tensor" where
  "tensor_div t n = Tensor (shape t) (map (\<lambda>x. x / of_nat n) (data t))"

definition factor_from_sqrt ::
  "'a::field convUtils \<Rightarrow> 'a HBPConv2d \<Rightarrow> 'a module \<Rightarrow> error + 'a tensor" where
  "factor_from_sqrt cu self m =
     (let sqrt_ggn = mat_from_ctx self
      in case separate_channels_and_pixels cu m sqrt_ggn of
           Inl e \<Rightarrow> Inl e
         | Inr sqrt_ggn \<Rightarrow>
             (case einsum ''bijc->bic'' [sqrt_ggn] of
                Inl e \<Rightarrow> Inl e
              | Inr sqrt_ggn \<Rightarrow> einsum ''bic,blc->il'' [sqrt_ggn, sqrt_ggn]))"

text \<open>
  The generator \<^verbatim>\<open>_factors_from_input\<close> as the list of the values it yields, or the
  exception its body raises when the consumer first advances it.
\<close>

definition factors_from_input ::
  "'a::field convUtils \<Rightarrow> 'a HBPConv2d \<Rightarrow> 'a module \<Rightarrow> error + 'a tensor list" where
  "factors_from_input cu self m =
     (case unfold_func cu m (input0 m) of
        Inl e \<Rightarrow> Inl e
      | Inr X \<Rightarrow>
          (case shape_at (shape X) 0 of
             Inl e \<Rightarrow> Inl e
           | Inr batch \<Rightarrow>
               (let ea_strategy = ea_strategy_from_extension self
                in if should_average_param_jac ea_strategy then Inl NotImplementedError
                   else (case einsum ''bik,bjk->ij'' [X, X] of
                           Inl e \<Rightarrow> Inl e
                         | Inr t \<Rightarrow> Inr [tensor_div t batch]))))"

definition weight_for_sqrt ::
  "'a::field convUtils \<Rightarrow> 'a HBPConv2d \<Rightarrow> 'a module \<Rightarrow> error + 'a tensor list" where
  "weight_for_sqrt cu self m =
     (case factor_from_sqrt cu self m of
        Inl e \<Rightarrow> Inl e
      | Inr f \<Rightarrow>
          (let kron_factors = [f]
           in case factors_from_input cu self m of
                Inl e \<Rightarrow> Inl e
              | Inr yielded \<Rightarrow>
                  Inr (foldl (\<lambda>kron_factors factor. kron_factors @ [factor])
                         kron_factors yielded)))"

text \<open>
  \<^verbatim>\<open>weight\<close> and \<^verbatim>\<open>bias\<close> have no \<^verbatim>\<open>else\<close> branch: with a strategy that is
  neither of the two they return Python's \<^verbatim>\<open>None\<close>, which is \<open>None\<close> here.
\<close>

definition hbp_weight ::
  "'a::field convUtils \<Rightarrow> 'a HBPConv2d \<Rightarrow> 'a module \<Rightarrow> error + 'a tensor list option" where
  "hbp_weight cu self m =
     (let bp_strategy = bp_strategy_from_extension self
      in if is_batch_average bp_strategy then Inl NotImplementedError
         else if is_sqrt bp_strategy then
           (case weight_for_sqrt cu self m of
              Inl e \<Rightarrow> Inl e
            | Inr fs \<Rightarrow> Inr (Some fs))
         else Inr None)"

definition bias_for_sqrt ::
  "'a::field convUtils \<Rightarrow> 'a HBPConv2d \<Rightarrow> 'a module \<Rightarrow> error + 'a tensor list" where
  "bias_for_sqrt cu self m =
     (case factor_from_sqrt cu self m of
        Inl e \<Rightarrow> Inl e
      | Inr f \<Rightarrow> Inr [f])"

definition hbp_bias ::
  "'a::field convUtils \<Rightarrow> 'a HBPConv2d \<Rightarrow> 'a module \<Rightarrow> error + 'a tensor list option" where
  "hbp_bias cu self m =
     (let bp_strategy = bp_strategy_from_extension self
      in if is_batch_average bp_strategy then Inl NotImplementedError
         else if is_sqrt bp_strategy then
           (case bias_for_sqrt cu self m of
              Inl e \<Rightarrow> Inl e
            | Inr fs \<Rightarrow> Inr (Some fs))
         else Inr None)"

section \<open>The equation builder and its 26 letters\<close>

lemma loop_exhausted:
  "length letters < 2 * n \<Longrightarrow> vp_einsum_equation_loop n letters acc = Inl StopIteration"
proof (induction n arbitrary: letters acc)
  case 0
  then show ?case by simp
next
  case (Suc n)
  obtain a b c where acc: "acc = (a, b, c)" by (cases acc) auto
  show ?case
  proof (cases letters)
    case Nil
    then show ?thesis by (simp add: acc)
  next
    case (Cons x xs)
    note outer = this
    show ?thesis
    proof (cases xs)
      case Nil
      then show ?thesis by (simp add: acc outer)
    next
      case (Cons y ys)
      with outer Suc.prems have "length ys < 2 * n" by simp
      then show ?thesis by (simp add: acc outer Cons Suc.IH)
    qed
  qed
qed

lemma concat_pair_up:
  "even (length xs) \<Longrightarrow> concat (map (\<lambda>(r, c). [r, c]) (pair_up xs)) = xs"
  by (induction xs rule: pair_up.induct) auto

lemma length_pair_up: "length (pair_up xs) = length xs div 2"
  by (induction xs rule: pair_up.induct) auto

lemma loop_result:
  "vp_einsum_equation_loop (length ps) (concat (map (\<lambda>(r, c). [r, c]) ps) @ rest)
       (in_str, v_str, out_str) =
     Inr (in_str @ concat (map (\<lambda>(r, c). [CHR '','', r, c]) ps),
          v_str @ map snd ps, out_str @ map fst ps)"
proof (induction ps arbitrary: in_str v_str out_str)
  case Nil
  show ?case by simp
next
  case (Cons p ps)
  obtain r c where p: "p = (r, c)" by (cases p) auto
  show ?case by (simp add: p Cons.IH)
qed

lemma length_get_letters: "length (get_letters m) = m"
  by (simp add: get_letters_def)

lemma length_letter_pairs: "n \<le> 13 \<Longrightarrow> length (letter_pairs n) = n"
  by (simp add: letter_pairs_def length_pair_up length_get_letters)

lemma vp_einsum_equation_result:
  assumes "n \<le> 13"
  shows "vp_einsum_equation n =
     Inr (map snd (letter_pairs n) @ concat (map (\<lambda>(r, c). [CHR '','', r, c]) (letter_pairs n))
          @ ''->'' @ map fst (letter_pairs n))"
proof -
  let ?L = "get_letters 26"
  from assms have "even (length (take (2 * n) ?L))" by (simp add: length_get_letters)
  then have "concat (map (\<lambda>(r, c). [r, c]) (letter_pairs n)) = take (2 * n) ?L"
    unfolding letter_pairs_def by (rule concat_pair_up)
  then have "?L = concat (map (\<lambda>(r, c). [r, c]) (letter_pairs n)) @ drop (2 * n) ?L"
    by simp
  then have "vp_einsum_equation_loop n ?L ([], [], []) =
      vp_einsum_equation_loop (length (letter_pairs n))
        (concat (map (\<lambda>(r, c). [r, c]) (letter_pairs n)) @ drop (2 * n) ?L) ([], [], [])"
    using assms by (simp add: length_letter_pairs)
  then show ?thesis
    by (simp add: vp_einsum_equation_def loop_result)
qed

lemma vp_einsum_equation_exhausted: "14 \<le> n \<Longrightarrow> vp_einsum_equation n = Inl StopIteration"
  by (simp add: vp_einsum_equation_def loop_exhausted length_get_letters)

lemma vp_einsum_equation_enough: "n \<le> 13 \<Longrightarrow> \<exists>eq. vp_einsum_equation n = Inr eq"
  by (simp add: vp_einsum_equation_result)

lemma foldr_min_const:
  "\<forall>n \<in> set ns. n = k \<Longrightarrow> foldr min ns k = (k::nat)"
  by (induction ns) auto

lemma zip_star_pairs:
  assumes "xss \<noteq> []" and "\<forall>xs \<in> set xss. length xs = 2"
  shows "zip_star xss = [map (\<lambda>ys. ys ! 0) xss, map (\<lambda>ys. ys ! 1) xss]"
proof -
  from assms(1) obtain xs rest where xss: "xss = xs # rest" by (cases xss) auto
  with assms(2) have "length xs = 2" and "\<forall>n \<in> set (map length rest). n = 2" by auto
  then have "foldr min (map length rest) (length xs) = 2"
    using foldr_min_const [of "map length rest" 2] by simp
  moreover have "[0..<2] = [0, 1]" by (simp add: upt_rec)
  ultimately show ?thesis by (simp add: zip_star_def xss)
qed

lemma all_order2_shapes:
  "all_tensors_of_order 2 fs \<Longrightarrow> \<forall>s \<in> set (map shape fs). length s = 2"
  by (auto simp: all_tensors_of_order_def is_tensor_of_order_def list_all_iff)

lemma vp_from_kron_facs_unfold:
  assumes "all_tensors_of_order 2 fs" and "fs \<noteq> []"
  shows "vp_from_kron_facs fs =
     (case vp_einsum_equation (length fs) of
        Inl e \<Rightarrow> Inl e
      | Inr equation \<Rightarrow> Inr (vp equation (map (\<lambda>f. shape f ! Suc 0) fs) fs))"
proof -
  have "zip_star (map shape fs) = [map (\<lambda>ys. ys ! 0) (map shape fs), map (\<lambda>ys. ys ! 1) (map shape fs)]"
    using assms all_order2_shapes [OF assms(1)] by (intro zip_star_pairs) auto
  then show ?thesis using assms(1) by (simp add: vp_from_kron_facs_def comp_def)
qed

text \<open>
  Claim C10. The equation builder takes two letters per factor from a generator of 26
  letters. With 14 or more factors the call never returns a product function: it raises,
  and when all factors are matrices the exception is the generator's \<open>StopIteration\<close>.
  With 1 to 13 matrices it returns a product function.
\<close>

theorem vp_from_kron_facs_at_most_13_factors:
  "(all_tensors_of_order 2 fs \<and> 14 \<le> length fs \<longrightarrow> vp_from_kron_facs fs = Inl StopIteration) \<and>
   (14 \<le> length fs \<longrightarrow> (\<exists>e. vp_from_kron_facs fs = Inl e)) \<and>
   (all_tensors_of_order 2 fs \<and> 1 \<le> length fs \<and> length fs \<le> 13 \<longrightarrow> (\<exists>f. vp_from_kron_facs fs = Inr f))"
proof (intro conjI impI)
  assume a: "all_tensors_of_order 2 fs \<and> 14 \<le> length fs"
  then have "fs \<noteq> []" by auto
  with a show "vp_from_kron_facs fs = Inl StopIteration"
    by (simp add: vp_from_kron_facs_unfold vp_einsum_equation_exhausted)
next
  assume len: "14 \<le> length fs"
  show "\<exists>e. vp_from_kron_facs fs = Inl e"
  proof (cases "all_tensors_of_order 2 fs")
    case True
    from len have "fs \<noteq> []" by auto
    with True len show ?thesis
      by (simp add: vp_from_kron_facs_unfold vp_einsum_equation_exhausted)
  next
    case False
    then show ?thesis by (simp add: vp_from_kron_facs_def)
  qed
next
  assume a: "all_tensors_of_order 2 fs \<and> 1 \<le> length fs \<and> length fs \<le> 13"
  then have ne: "fs \<noteq> []" by auto
  from a vp_einsum_equation_enough [of "length fs"] obtain eq where
    "vp_einsum_equation (length fs) = Inr eq" by auto
  with a ne show "\<exists>f. vp_from_kron_facs fs = Inr f"
    by (simp add: vp_from_kron_facs_unfold)
qed

theorem vp_from_kron_facs_at_most_13_factors_witness:
  "vp_from_kron_facs (replicate 14 (Tensor [1, 1] [1::int])) = Inl StopIteration \<and>
   (\<exists>f. vp_from_kron_facs (replicate 13 (Tensor [1, 1] [1::int])) = Inr f)"
  using vp_from_kron_facs_at_most_13_factors [of "replicate 14 (Tensor [1, 1] [1::int])"]
        vp_from_kron_facs_at_most_13_factors [of "replicate 13 (Tensor [1, 1] [1::int])"]
  by (simp add: all_tensors_of_order_def is_tensor_of_order_def list_all_iff)

end
